theory Spec2Isabelle
  imports Main
begin

section \<open>JavaScript values as the normalisation functions see them\<close>

text \<open>
  The content opcodes receive an \<^verbatim>\<open>Opaque\<close> value and probe three things on it: whether
  \<^verbatim>\<open>toString\<close> is callable, whether \<^verbatim>\<open>toHTML\<close> is callable (the trust marker) and
  whether \<^verbatim>\<open>nodeType\<close> is a number (a tree node). A value other than \<^verbatim>\<open>null\<close>,
  \<^verbatim>\<open>undefined\<close> and a primitive string is therefore an object described by what these
  three probes find; numbers and booleans are such values too, with a callable
  \<^verbatim>\<open>toString\<close> and nothing else. For \<^verbatim>\<open>toString\<close> the object records what the
  conversion \<^verbatim>\<open>String(value)\<close> comes to when the method is callable: a string, or an
  error (the method throws, or it returns an object and \<^verbatim>\<open>valueOf\<close> gives no primitive
  either, which is a TypeError). A callable \<^verbatim>\<open>toHTML\<close> yields the marker's text.
\<close>

datatype error = TypeError | Thrown | EmptyStack

record jsobject =
  toString_result :: "(error + string) option"
  toHTML_result :: "string option"
  nodeType :: "nat option"

datatype opaque = Null | Undefined | Str string | Obj jsobject

text \<open>
  \<^verbatim>\<open>String(value)\<close>: the language's conversion. On an object it fails with a TypeError
  when there is no callable \<^verbatim>\<open>toString\<close> (such an object is taken to have no usable
  \<^verbatim>\<open>valueOf\<close> either), and otherwise comes to what the object records.
\<close>

fun js_String :: "opaque \<Rightarrow> error + string" where
  "js_String Null = Inr ''null''"
| "js_String Undefined = Inr ''undefined''"
| "js_String (Str s) = Inr s"
| "js_String (Obj ob) = (case toString_result ob of None \<Rightarrow> Inl TypeError | Some r \<Rightarrow> r)"

text \<open>\<^verbatim>\<open>value.toHTML()\<close>: a TypeError unless the method is there.\<close>

fun js_toHTML :: "opaque \<Rightarrow> error + string" where
  "js_toHTML (Obj ob) = (case toHTML_result ob of None \<Rightarrow> Inl TypeError | Some h \<Rightarrow> Inr h)"
| "js_toHTML _ = Inl TypeError"

text \<open>
  Modelled from the spec: \<^verbatim>\<open>isString\<close>, \<^verbatim>\<open>isSafeString\<close> and \<^verbatim>\<open>isNode\<close> are imported
  from the upsert module, which is not among the sources. Section 6 gives the trust
  marker as a test on any value whose positive answer comes with a method that yields the
  raw textual payload; section 4.2 speaks of an already-string value and of a
  tree-node-shaped value.
\<close>

fun isString :: "opaque \<Rightarrow> bool" where
  "isString (Str s) = True"
| "isString _ = False"

fun isSafeString :: "opaque \<Rightarrow> bool" where
  "isSafeString (Obj ob) = (toHTML_result ob \<noteq> None)"
| "isSafeString _ = False"

fun isNode :: "opaque \<Rightarrow> bool" where
  "isNode (Obj ob) = (nodeType ob \<noteq> None)"
| "isNode _ = False"

section \<open>Insertion normalisation\<close>

text \<open>
  \<^verbatim>\<open>value === null || value === undefined || typeof value.toString !== 'function'\<close>;
  a primitive string has a callable \<^verbatim>\<open>toString\<close>.
\<close>

fun isEmpty :: "opaque \<Rightarrow> bool" where
  "isEmpty Null = True"
| "isEmpty Undefined = True"
| "isEmpty (Str s) = False"
| "isEmpty (Obj ob) = (toString_result ob = None)"

definition normalizeTextValue :: "opaque \<Rightarrow> error + string" where
  "normalizeTextValue v = (if isEmpty v then Inr '''' else js_String v)"

text \<open>
  The result is a JavaScript value again: a string, or the argument itself passed
  through (\<^verbatim>\<open>TrustingInsertion\<close> is \<^verbatim>\<open>string | Node\<close>, \<^verbatim>\<open>CautiousInsertion\<close> is
  \<^verbatim>\<open>string | SafeString | Node\<close>).
\<close>

definition normalizeTrustedValue :: "opaque \<Rightarrow> error + opaque" where
  "normalizeTrustedValue v =
     (if isEmpty v then Inr (Str '''')
      else if isString v then Inr v
      else if isSafeString v then
        (case js_toHTML v of Inl e \<Rightarrow> Inl e | Inr h \<Rightarrow> Inr (Str h))
      else if isNode v then Inr v
      else (case js_String v of Inl e \<Rightarrow> Inl e | Inr s \<Rightarrow> Inr (Str s)))"

definition normalizeValue :: "opaque \<Rightarrow> error + opaque" where
  "normalizeValue v =
     (if isEmpty v then Inr (Str '''')
      else if isString v then Inr v
      else if isSafeString v \<or> isNode v then Inr v
      else (case js_String v of Inl e \<Rightarrow> Inl e | Inr s \<Rightarrow> Inr (Str s)))"

text \<open>
  Modelled from the spec: the Insertion a normalised value stands for. Section 3 gives it
  as Empty, Text, TrustedMarkup or Node; \<^verbatim>\<open>cautiousInsert\<close> and \<^verbatim>\<open>trustingInsert\<close>, which
  decide it, are not among the sources. In cautious mode a string is text to be escaped,
  a trust-marked value is the markup its \<^verbatim>\<open>toHTML()\<close> yields and a tree node is itself; in
  trusting mode a string is raw markup and a tree node is itself (section 4.2). The
  empty string is Empty in both. Any other value is no insertion.
\<close>

datatype insertion = Empty | Text string | TrustedMarkup string | Node jsobject







section \<open>References and the reference cache\<close>

text \<open>
  Modelled from the spec: the reference package (\<^verbatim>\<open>Reference\<close>, its tag, \<^verbatim>\<open>isConst\<close>,
  \<^verbatim>\<open>map\<close>, \<^verbatim>\<open>ReferenceCache\<close>, \<^verbatim>\<open>isModified\<close>) is not among the sources. Sections 3
  and 4.1 give a reference as a lazy producer of a value that carries a version tag and
  whose constancy is known before any value is read. The upstream data a reference reads
  is a table from the reference's identity to its current value and the current revision
  of its tag. Every call of \<^verbatim>\<open>value()\<close> and every construction of a cache is recorded in
  a trace, so that how often the code reads a value can be stated.
\<close>

record reference =
  ref_id :: nat
  ref_const :: bool

type_synonym upstream = "nat \<Rightarrow> opaque \<times> nat"

datatype event = ValueRead nat | CacheCreated nat

definition isConst :: "reference \<Rightarrow> bool" where
  "isConst r = ref_const r"

text \<open>
  \<^verbatim>\<open>map(reference, f)\<close>: the reference whose value is \<open>f\<close> of the inner value and whose
  tag is the inner tag (section 4.1, the edge case of a pure transform).
\<close>

record mapped_reference =
  inner :: reference
  mapper :: "opaque \<Rightarrow> error + opaque"

definition map_reference :: "reference \<Rightarrow> (opaque \<Rightarrow> error + opaque) \<Rightarrow> mapped_reference" where
  "map_reference r f = \<lparr>inner = r, mapper = f\<rparr>"

definition reference_tag :: "upstream \<Rightarrow> mapped_reference \<Rightarrow> nat" where
  "reference_tag up r = snd (up (ref_id (inner r)))"

definition reference_value ::
  "upstream \<Rightarrow> mapped_reference \<Rightarrow> event list \<Rightarrow> error + opaque \<times> event list" where
  "reference_value up r tr =
     (case mapper r (fst (up (ref_id (inner r)))) of
        Inl e \<Rightarrow> Inl e
      | Inr v \<Rightarrow> Inr (v, tr @ [ValueRead (ref_id (inner r))]))"

text \<open>
  The cache owns its reference and, once a value has been read, the tag revision captured
  at that read together with the value (section 3).
\<close>

record reference_cache =
  rc_reference :: mapped_reference
  rc_last :: "(nat \<times> opaque) option"

definition new_ReferenceCache ::
  "mapped_reference \<Rightarrow> event list \<Rightarrow> reference_cache \<times> event list" where
  "new_ReferenceCache r tr =
     (\<lparr>rc_reference = r, rc_last = None\<rparr>, tr @ [CacheCreated (ref_id (inner r))])"

definition initialize ::
  "upstream \<Rightarrow> reference_cache \<Rightarrow> event list
     \<Rightarrow> error + opaque \<times> reference_cache \<times> event list" where
  "initialize up c tr =
     (case reference_value up (rc_reference c) tr of
        Inl e \<Rightarrow> Inl e
      | Inr (v, tr') \<Rightarrow>
          Inr (v, c\<lparr>rc_last := Some (reference_tag up (rc_reference c), v)\<rparr>, tr'))"

text \<open>
  \<^verbatim>\<open>peek()\<close> returns the last value computed, with no recomputation and no effect
  (section 4.1); on a cache that has read nothing yet it performs the first computation
  (section 4.4, step 3).
\<close>

definition peek ::
  "upstream \<Rightarrow> reference_cache \<Rightarrow> event list
     \<Rightarrow> error + opaque \<times> reference_cache \<times> event list" where
  "peek up c tr =
     (case rc_last c of
        Some (t, v) \<Rightarrow> Inr (v, c, tr)
      | None \<Rightarrow> initialize up c tr)"

datatype validation = Const | Modified opaque

text \<open>
  \<^verbatim>\<open>revalidate()\<close> compares the reference's current tag with the stored one: equal gives
  \<open>Const\<close>; otherwise the value is recomputed, tag and value are stored and \<open>Modified\<close>
  carries the fresh value (section 4.1).
\<close>

definition revalidate ::
  "upstream \<Rightarrow> reference_cache \<Rightarrow> event list
     \<Rightarrow> error + validation \<times> reference_cache \<times> event list" where
  "revalidate up c tr =
     (if (case rc_last c of
            Some (t, v) \<Rightarrow> reference_tag up (rc_reference c) = t
          | None \<Rightarrow> False)
      then Inr (Const, c, tr)
      else (case initialize up c tr of
              Inl e \<Rightarrow> Inl e
            | Inr (v, c', tr') \<Rightarrow> Inr (Modified v, c', tr')))"

section \<open>The render target\<close>

text \<open>
  Modelled from the spec: bounds, cursor and fragment (sections 3 and 4.3; the bounds and
  builder modules are not among the sources). Bounds are a parent and a first and a last
  anchor; a cursor is a parent and an optional marker to insert before; a fragment wraps
  the bounds it currently stands for.
\<close>

type_synonym node = nat

record bounds =
  parentElement :: node
  firstNode :: node
  lastNode :: node

datatype cursor = Cursor node "node option"

datatype fragment = Fragment bounds

fun fragment_bounds :: "fragment \<Rightarrow> bounds" where
  "fragment_bounds (Fragment b) = b"

text \<open>
  The operations on the output tree come from modules that are not among the sources
  (\<^verbatim>\<open>cautiousInsert\<close>, \<^verbatim>\<open>trustingInsert\<close>, \<^verbatim>\<open>Upsert\<close>, \<^verbatim>\<open>clear\<close>, the element stack
  behind \<^verbatim>\<open>vm.elements()\<close>). The opcodes take them as parameters, over any type \<open>'dom\<close> of
  output trees (the tree together with the element stack) and any type \<open>'u\<close> of upsert
  objects. \<^verbatim>\<open>update\<close> may change the upsert object itself, so it returns the object too.
\<close>

record ('dom, 'u) render_target =
  cautiousInsert :: "cursor \<Rightarrow> opaque \<Rightarrow> 'dom \<Rightarrow> 'u \<times> 'dom"
  trustingInsert :: "cursor \<Rightarrow> opaque \<Rightarrow> 'dom \<Rightarrow> 'u \<times> 'dom"
  upsert_update :: "'u \<Rightarrow> opaque \<Rightarrow> 'dom \<Rightarrow> bool \<times> 'u \<times> 'dom"
  upsert_bounds :: "'u \<Rightarrow> bounds"
  clear :: "bounds \<Rightarrow> 'dom \<Rightarrow> node option \<times> 'dom"
  elements :: "'dom \<Rightarrow> cursor"
  newBounds :: "fragment \<Rightarrow> 'dom \<Rightarrow> 'dom"

section \<open>The content opcodes\<close>

datatype append_opcode = OptimizedCautiousAppendOpcode | OptimizedTrustingAppendOpcode

datatype update_class = OptimizedCautiousUpdateOpcode | OptimizedTrustingUpdateOpcode

text \<open>
  An \<^verbatim>\<open>UpdateOpcode\<close>: its concrete class, the \<^verbatim>\<open>_guid\<close> the base class gave it, the tag
  taken from the cache (a tag is identified by the reference it belongs to), and the three
  constructor arguments.
\<close>

record 'u update_opcode =
  uo_class :: update_class
  uo_guid :: nat
  uo_tag :: nat
  uo_cache :: reference_cache
  uo_bounds :: fragment
  uo_upsert :: 'u

text \<open>
  The first-pass machine: the evaluation stack (top first), the output tree, the list of
  updating opcodes, the upstream data, the trace, and the counter from which the opcode
  base class (not among the sources) numbers new opcodes.
\<close>

record ('dom, 'u) vm =
  vm_stack :: "reference list"
  vm_tree :: 'dom
  vm_updating :: "'u update_opcode list"
  vm_upstream :: upstream
  vm_trace :: "event list"
  vm_guid :: nat

text \<open>The second-pass machine an \<^verbatim>\<open>UpdateOpcode\<close> runs on.\<close>

record 'dom updating_vm =
  uvm_tree :: 'dom
  uvm_upstream :: upstream
  uvm_trace :: "event list"

fun normalize :: "append_opcode \<Rightarrow> reference \<Rightarrow> mapped_reference" where
  "normalize OptimizedCautiousAppendOpcode r = map_reference r normalizeValue"
| "normalize OptimizedTrustingAppendOpcode r = map_reference r normalizeTrustedValue"

fun append_insert ::
  "('dom, 'u) render_target \<Rightarrow> append_opcode \<Rightarrow> cursor \<Rightarrow> opaque \<Rightarrow> 'dom \<Rightarrow> 'u \<times> 'dom" where
  "append_insert T OptimizedCautiousAppendOpcode = cautiousInsert T"
| "append_insert T OptimizedTrustingAppendOpcode = trustingInsert T"

fun update_insert ::
  "('dom, 'u) render_target \<Rightarrow> update_class \<Rightarrow> cursor \<Rightarrow> opaque \<Rightarrow> 'dom \<Rightarrow> 'u \<times> 'dom" where
  "update_insert T OptimizedCautiousUpdateOpcode = cautiousInsert T"
| "update_insert T OptimizedTrustingUpdateOpcode = trustingInsert T"

fun update_type :: "update_class \<Rightarrow> string" where
  "update_type OptimizedCautiousUpdateOpcode = ''optimized-cautious-update''"
| "update_type OptimizedTrustingUpdateOpcode = ''optimized-trusting-update''"

text \<open>The constructor of \<^verbatim>\<open>UpdateOpcode\<close>: \<^verbatim>\<open>this.tag = cache.tag\<close>.\<close>

definition new_UpdateOpcode ::
  "update_class \<Rightarrow> nat \<Rightarrow> reference_cache \<Rightarrow> fragment \<Rightarrow> 'u \<Rightarrow> 'u update_opcode" where
  "new_UpdateOpcode cls g cache bnds upsert =
     \<lparr>uo_class = cls, uo_guid = g, uo_tag = ref_id (inner (rc_reference cache)),
      uo_cache = cache, uo_bounds = bnds, uo_upsert = upsert\<rparr>"

fun updateWith ::
  "append_opcode \<Rightarrow> nat \<Rightarrow> reference_cache \<Rightarrow> fragment \<Rightarrow> 'u \<Rightarrow> 'u update_opcode" where
  "updateWith OptimizedCautiousAppendOpcode g cache bnds upsert =
     new_UpdateOpcode OptimizedCautiousUpdateOpcode g cache bnds upsert"
| "updateWith OptimizedTrustingAppendOpcode g cache bnds upsert =
     new_UpdateOpcode OptimizedTrustingUpdateOpcode g cache bnds upsert"

text \<open>
  Modelled from the spec: \<^verbatim>\<open>vm.updateWith\<close> appends the opcode to the list of updating
  opcodes (section 4.6; the VM class is not among the sources).
\<close>

definition vm_updateWith :: "'u update_opcode \<Rightarrow> ('dom, 'u) vm \<Rightarrow> ('dom, 'u) vm" where
  "vm_updateWith opc vm = vm\<lparr>vm_updating := vm_updating vm @ [opc]\<rparr>"

text \<open>
  Lines 288 to 296 of \<^verbatim>\<open>AppendDynamicOpcode.evaluate\<close>: insert the value at the cursor of
  the element stack, wrap the upsert's bounds in a fragment, register it, and, when a
  cache was made, build the updating opcode and hand it to the machine.
\<close>

definition materialize ::
  "('dom, 'u) render_target \<Rightarrow> append_opcode \<Rightarrow> opaque \<Rightarrow> reference_cache option
     \<Rightarrow> ('dom, 'u) vm \<Rightarrow> ('dom, 'u) vm" where
  "materialize T this val cache vm =
     (let stack = elements T (vm_tree vm);
          (upsert, tree1) = append_insert T this stack val (vm_tree vm);
          bnds = Fragment (upsert_bounds T upsert);
          vm1 = vm\<lparr>vm_tree := newBounds T bnds tree1\<rparr>
      in case cache of
           None \<Rightarrow> vm1
         | Some c \<Rightarrow>
             vm_updateWith (updateWith this (vm_guid vm1) c bnds upsert)
               (vm1\<lparr>vm_guid := Suc (vm_guid vm1)\<rparr>))"

text \<open>
  \<^verbatim>\<open>AppendDynamicOpcode.evaluate\<close>. Popping an empty evaluation stack is an error of the
  machine; an exception of the normalising function would leave through \<open>Inl\<close>.
\<close>

definition AppendDynamicOpcode_evaluate ::
  "('dom, 'u) render_target \<Rightarrow> append_opcode \<Rightarrow> ('dom, 'u) vm \<Rightarrow> error + ('dom, 'u) vm" where
  "AppendDynamicOpcode_evaluate T this vm =
     (case vm_stack vm of
        [] \<Rightarrow> Inl EmptyStack
      | reference # rest \<Rightarrow>
          (let vm1 = vm\<lparr>vm_stack := rest\<rparr>;
               normalized = normalize this reference
           in if isConst reference then
                (case reference_value (vm_upstream vm1) normalized (vm_trace vm1) of
                   Inl e \<Rightarrow> Inl e
                 | Inr (val, tr) \<Rightarrow>
                     Inr (materialize T this val None (vm1\<lparr>vm_trace := tr\<rparr>)))
              else
                (let (cache, tr1) = new_ReferenceCache normalized (vm_trace vm1)
                 in case peek (vm_upstream vm1) cache tr1 of
                      Inl e \<Rightarrow> Inl e
                    | Inr (val, cache', tr2) \<Rightarrow>
                        Inr (materialize T this val (Some cache') (vm1\<lparr>vm_trace := tr2\<rparr>)))))"

text \<open>
  \<^verbatim>\<open>UpdateOpcode.evaluate\<close>. The locals \<^verbatim>\<open>bounds\<close> and \<^verbatim>\<open>upsert\<close> are the opcode's own
  objects, so what \<^verbatim>\<open>update\<close> does to the upsert object is seen through both names;
  \<^verbatim>\<open>bounds.update\<close> stores new bounds in the opcode's fragment.
\<close>

definition UpdateOpcode_evaluate ::
  "('dom, 'u) render_target \<Rightarrow> 'u update_opcode \<Rightarrow> 'dom updating_vm
     \<Rightarrow> error + 'u update_opcode \<times> 'dom updating_vm" where
  "UpdateOpcode_evaluate T this vm =
     (case revalidate (uvm_upstream vm) (uo_cache this) (uvm_trace vm) of
        Inl e \<Rightarrow> Inl e
      | Inr (Const, cache', tr) \<Rightarrow> Inr (this\<lparr>uo_cache := cache'\<rparr>, vm\<lparr>uvm_trace := tr\<rparr>)
      | Inr (Modified val, cache', tr) \<Rightarrow>
          (let bnds = uo_bounds this;
               (ok, upsert1, tree1) = upsert_update T (uo_upsert this) val (uvm_tree vm)
           in if \<not> ok then
                (let (nextSibling, tree2) = clear T (fragment_bounds bnds) tree1;
                     cursor = Cursor (parentElement (fragment_bounds bnds)) nextSibling;
                     (upsert2, tree3) = update_insert T (uo_class this) cursor val tree2
                 in Inr (this\<lparr>uo_cache := cache', uo_upsert := upsert2,
                               uo_bounds := Fragment (upsert_bounds T upsert2)\<rparr>,
                         vm\<lparr>uvm_tree := tree3, uvm_trace := tr\<rparr>))
              else
                Inr (this\<lparr>uo_cache := cache', uo_upsert := upsert1,
                          uo_bounds := Fragment (upsert_bounds T upsert1)\<rparr>,
                     vm\<lparr>uvm_tree := tree1, uvm_trace := tr\<rparr>)))"

text \<open>
  A run of revalidation ticks on one opcode, given the upstream data as it is at each
  tick.
\<close>

fun ticks ::
  "('dom, 'u) render_target \<Rightarrow> upstream list \<Rightarrow> 'u update_opcode \<Rightarrow> 'dom updating_vm
     \<Rightarrow> error + 'u update_opcode \<times> 'dom updating_vm" where
  "ticks T [] this vm = Inr (this, vm)"
| "ticks T (up # ups) this vm =
     (case UpdateOpcode_evaluate T this (vm\<lparr>uvm_upstream := up\<rparr>) of
        Inl e \<Rightarrow> Inl e
      | Inr (this', vm') \<Rightarrow> ticks T ups this' vm')"

text \<open>
  \<^verbatim>\<open>UpdateOpcode.toJSON\<close>. \<^verbatim>\<open>JSON.stringify\<close> is the language's; it is a parameter. The
  method has no machine at hand: the state it is given here is only what \<^verbatim>\<open>cache.peek()\<close>
  could reach.
\<close>

record 'j opcode_json =
  details_lastValue :: 'j
  guid :: nat
  type :: string

definition toJSON ::
  "(opaque \<Rightarrow> 'j) \<Rightarrow> 'u update_opcode \<Rightarrow> 'dom updating_vm
     \<Rightarrow> error + 'j opcode_json \<times> 'u update_opcode \<times> 'dom updating_vm" where
  "toJSON stringify this vm =
     (case peek (uvm_upstream vm) (uo_cache this) (uvm_trace vm) of
        Inl e \<Rightarrow> Inl e
      | Inr (val, cache', tr) \<Rightarrow>
          Inr (\<lparr>details_lastValue = stringify val, guid = uo_guid this,
                type = update_type (uo_class this)\<rparr>,
               this\<lparr>uo_cache := cache'\<rparr>, vm\<lparr>uvm_trace := tr\<rparr>))"

section \<open>A small render target\<close>

text \<open>
  Modelled from the spec: a render target to run the opcodes on (sections 4.3 and 6; the
  real one is not among the sources). The output tree is the sequence of children of one
  parent element, each child a node handle with the value it shows; \<open>fresh\<close> is the next
  unused handle and \<open>blocks\<close> are the fragments registered with \<^verbatim>\<open>newBounds\<close>. Content
  inserted is one node. An update in place succeeds for text by text only; every other
  pairing asks for teardown and reinsertion (the conservative reading of section 9).
\<close>

record simple_tree =
  children :: "(node \<times> opaque) list"
  fresh :: node
  blocks :: "fragment list"

datatype simple_kind = TextContent | MarkupContent | NodeContent

record simple_upsert =
  su_bounds :: bounds
  su_kind :: simple_kind

fun insert_before ::
  "node option \<Rightarrow> node \<times> opaque \<Rightarrow> (node \<times> opaque) list \<Rightarrow> (node \<times> opaque) list" where
  "insert_before None x ys = ys @ [x]"
| "insert_before (Some m) x [] = [x]"
| "insert_before (Some m) x (y # ys) =
     (if fst y = m then x # y # ys else y # insert_before (Some m) x ys)"

fun next_sibling :: "node \<Rightarrow> (node \<times> opaque) list \<Rightarrow> node option" where
  "next_sibling n [] = None"
| "next_sibling n (y # ys) =
     (if fst y = n then (case ys of [] \<Rightarrow> None | z # zs \<Rightarrow> Some (fst z))
      else next_sibling n ys)"

fun set_content :: "node \<Rightarrow> opaque \<Rightarrow> (node \<times> opaque) list \<Rightarrow> (node \<times> opaque) list" where
  "set_content n v [] = []"
| "set_content n v (y # ys) =
     (if fst y = n then (n, v) # ys else y # set_content n v ys)"

fun cautious_kind :: "opaque \<Rightarrow> simple_kind" where
  "cautious_kind v =
     (if isString v then TextContent else if isSafeString v then MarkupContent
      else NodeContent)"

fun trusting_kind :: "opaque \<Rightarrow> simple_kind" where
  "trusting_kind v = (if isString v then MarkupContent else NodeContent)"

fun simple_insert ::
  "(opaque \<Rightarrow> simple_kind) \<Rightarrow> cursor \<Rightarrow> opaque \<Rightarrow> simple_tree \<Rightarrow> simple_upsert \<times> simple_tree" where
  "simple_insert kind (Cursor parent next) v t =
     (\<lparr>su_bounds = \<lparr>parentElement = parent, firstNode = fresh t, lastNode = fresh t\<rparr>,
       su_kind = kind v\<rparr>,
      t\<lparr>children := insert_before next (fresh t, v) (children t), fresh := Suc (fresh t)\<rparr>)"

definition simple_update ::
  "simple_upsert \<Rightarrow> opaque \<Rightarrow> simple_tree \<Rightarrow> bool \<times> simple_upsert \<times> simple_tree" where
  "simple_update u v t =
     (if su_kind u = TextContent \<and> isString v
      then (True, u, t\<lparr>children := set_content (firstNode (su_bounds u)) v (children t)\<rparr>)
      else (False, u, t))"

definition simple_clear :: "bounds \<Rightarrow> simple_tree \<Rightarrow> node option \<times> simple_tree" where
  "simple_clear b t =
     (next_sibling (lastNode b) (children t),
      t\<lparr>children := filter (\<lambda>y. fst y \<noteq> firstNode b) (children t)\<rparr>)"

definition simple_target :: "(simple_tree, simple_upsert) render_target" where
  "simple_target =
     \<lparr>cautiousInsert = simple_insert cautious_kind,
      trustingInsert = simple_insert trusting_kind,
      upsert_update = simple_update,
      upsert_bounds = su_bounds,
      clear = simple_clear,
      elements = (\<lambda>t. Cursor 0 None),
      newBounds = (\<lambda>f t. t\<lparr>blocks := f # blocks t\<rparr>)\<rparr>"

section \<open>Opening a component\<close>

text \<open>
  A component invocation: a layout, which yields its opcodes for an environment, and the
  templates of the invocation. Opcodes, templates and the environment are opaque here.
\<close>

record ('env, 'op) layout =
  opcodes :: "'env \<Rightarrow> 'op list"

record ('env, 'op, 't) component_invocation =
  layout :: "('env, 'op) layout"
  templates :: 't

datatype ('env, 'op, 't) open_component_opcode =
  OpenComponentOpcode "('env, 'op, 't) component_invocation"

fun invocation ::
  "('env, 'op, 't) open_component_opcode \<Rightarrow> ('env, 'op, 't) component_invocation" where
  "invocation (OpenComponentOpcode i) = i"

fun open_component_type :: "('env, 'op, 't) open_component_opcode \<Rightarrow> string" where
  "open_component_type (OpenComponentOpcode i) = ''open-component''"

text \<open>
  Modelled from the spec: the VM class is not among the sources. The machine has an
  environment, a stack of frames (each the opcode sequence it executes, innermost first),
  its templates, the evaluation stack and the output tree. \<^verbatim>\<open>pushFrame\<close> begins a nested
  opcode sequence that shares the evaluation stack and the output cursor (section 4.6);
  \<^verbatim>\<open>setTemplates\<close> stores its argument as the machine's templates.
\<close>

record ('env, 'op, 't, 'r, 'dom) component_vm =
  cvm_env :: 'env
  cvm_frames :: "'op list list"
  cvm_templates :: 't
  cvm_stack :: "'r list"
  cvm_tree :: 'dom

definition pushFrame ::
  "'op list \<Rightarrow> ('env, 'op, 't, 'r, 'dom) component_vm \<Rightarrow> ('env, 'op, 't, 'r, 'dom) component_vm" where
  "pushFrame ops vm = vm\<lparr>cvm_frames := ops # cvm_frames vm\<rparr>"

definition setTemplates ::
  "'t \<Rightarrow> ('env, 'op, 't, 'r, 'dom) component_vm \<Rightarrow> ('env, 'op, 't, 'r, 'dom) component_vm" where
  "setTemplates t vm = vm\<lparr>cvm_templates := t\<rparr>"

definition OpenComponentOpcode_evaluate ::
  "('env, 'op, 't) open_component_opcode \<Rightarrow> ('env, 'op, 't, 'r, 'dom) component_vm
     \<Rightarrow> ('env, 'op, 't, 'r, 'dom) component_vm" where
  "OpenComponentOpcode_evaluate this vm =
     (let vm1 = pushFrame (opcodes (layout (invocation this)) (cvm_env vm)) vm
      in setTemplates (templates (invocation this)) vm1)"

section \<open>Methods and accessors that can call their superclass\<close>

text \<open>
  An instance carries \<^verbatim>\<open>_super\<close> and its other fields. \<^verbatim>\<open>_super\<close> is \<^verbatim>\<open>null\<close> or one of
  the two closures the wrappers create; a closure is known by what it captured: the home
  object (by its identity) and the name.
\<close>

datatype super_closure = SuperMethod nat string | SuperGetter nat string

record 'f js_instance =
  super_field :: "super_closure option"
  other_fields :: 'f

text \<open>
  A call on an instance completes by returning a value or by throwing one (\<open>TypeErrorThrown\<close>
  is the language's own TypeError), and leaves the instance as the call changed it.
\<close>

datatype 'v completion = Return 'v | Throw 'v | TypeErrorThrown

type_synonym ('v, 'f) js_method = "'v list \<Rightarrow> 'f js_instance \<Rightarrow> 'v completion \<times> 'f js_instance"

type_synonym ('v, 'f) js_getter = "'f js_instance \<Rightarrow> 'v completion \<times> 'f js_instance"

text \<open>
  What \<^verbatim>\<open>Object.getOwnPropertyDescriptor\<close> finds under a name: a data property, whose value
  is a function or something else, or an accessor property, which has the key \<^verbatim>\<open>get\<close>
  (its getter may be undefined).
\<close>

datatype ('v, 'f) descriptor =
  DataFunction "('v, 'f) js_method"
| DataValue 'v
| Accessor "('v, 'f) js_getter option"

text \<open>
  An object is given by its own properties and the own properties of the objects on its
  prototype chain, nearest first; the language keeps that chain finite and free of cycles.
\<close>

record ('v, 'f) js_object =
  own :: "string \<Rightarrow> ('v, 'f) descriptor option"
  prototypes :: "(string \<Rightarrow> ('v, 'f) descriptor option) list"

text \<open>
  \<^verbatim>\<open>getPropertyDescriptor\<close>: the loop runs while nothing is found and a prototype is left.
\<close>

fun getPropertyDescriptor_loop ::
  "('v, 'f) descriptor option \<Rightarrow> (string \<Rightarrow> ('v, 'f) descriptor option) list \<Rightarrow> string
     \<Rightarrow> ('v, 'f) descriptor option" where
  "getPropertyDescriptor_loop pd [] name = pd"
| "getPropertyDescriptor_loop pd (proto # protos) name =
     (if pd = None then getPropertyDescriptor_loop (proto name) protos name else pd)"

definition getPropertyDescriptor ::
  "('v, 'f) js_object \<Rightarrow> string \<Rightarrow> ('v, 'f) descriptor option" where
  "getPropertyDescriptor subject name =
     getPropertyDescriptor_loop (own subject name) (prototypes subject) name"

text \<open>\<^verbatim>\<open>name in home\<close>: the name is a property of the object or of a prototype.\<close>

definition has_property :: "('v, 'f) js_object \<Rightarrow> string \<Rightarrow> bool" where
  "has_property obj name = list_ex (\<lambda>props. props name \<noteq> None) (own obj # prototypes obj)"

text \<open>
  Calling what \<^verbatim>\<open>_super\<close> holds, in a heap of home objects as it is at the time of the
  call. The closure of \<^verbatim>\<open>wrapMethod\<close> applies \<^verbatim>\<open>home[methodName]\<close> to the instance and the
  arguments; the closure of \<^verbatim>\<open>wrapAccessor\<close> looks the descriptor up again and calls its
  getter. A value that is not a function cannot be called. (A home property that is
  itself an accessor yielding a function is left out of \<^verbatim>\<open>home[methodName]\<close>.)
\<close>

fun call_super ::
  "(nat \<Rightarrow> ('v, 'f) js_object) \<Rightarrow> super_closure option \<Rightarrow> ('v, 'f) js_method" where
  "call_super heap None args this = (TypeErrorThrown, this)"
| "call_super heap (Some (SuperMethod home methodName)) args this =
     (case getPropertyDescriptor (heap home) methodName of
        Some (DataFunction m) \<Rightarrow> m args this
      | _ \<Rightarrow> (TypeErrorThrown, this))"
| "call_super heap (Some (SuperGetter home accessorName)) args this =
     (case getPropertyDescriptor (heap home) accessorName of
        Some (Accessor (Some g)) \<Rightarrow> g this
      | _ \<Rightarrow> (TypeErrorThrown, this))"

text \<open>
  \<^verbatim>\<open>wrapMethod\<close>. The \<^verbatim>\<open>finally\<close> block runs after the original whatever its completion,
  and the completion of the original is the completion of the wrapper.
\<close>

definition wrapMethod ::
  "(nat \<Rightarrow> ('v, 'f) js_object) \<Rightarrow> nat \<Rightarrow> string \<Rightarrow> ('v, 'f) js_method \<Rightarrow> ('v, 'f) js_method" where
  "wrapMethod heap home methodName original =
     (if \<not> has_property (heap home) methodName then original
      else (\<lambda>args this.
        let lastSuper = super_field this;
            this1 = this\<lparr>super_field := Some (SuperMethod home methodName)\<rparr>
        in case original args this1 of
             (Return v, this2) \<Rightarrow> (Return v, this2\<lparr>super_field := lastSuper\<rparr>)
           | (thrown, this2) \<Rightarrow> (thrown, this2\<lparr>super_field := lastSuper\<rparr>)))"

record ('v, 'f) property_descriptor =
  enumerable :: bool
  configurable :: bool
  get :: "('v, 'f) js_getter"

definition wrapAccessor ::
  "(nat \<Rightarrow> ('v, 'f) js_object) \<Rightarrow> nat \<Rightarrow> string \<Rightarrow> ('v, 'f) js_getter
     \<Rightarrow> ('v, 'f) property_descriptor" where
  "wrapAccessor heap home accessorName original =
     (let superDesc = getPropertyDescriptor (heap home) accessorName
      in case superDesc of
           Some (Accessor g) \<Rightarrow>
             \<lparr>enumerable = True, configurable = True,
              get = (\<lambda>this.
                let lastSuper = super_field this;
                    this1 = this\<lparr>super_field := Some (SuperGetter home accessorName)\<rparr>
                in case original this1 of
                     (Return v, this2) \<Rightarrow> (Return v, this2\<lparr>super_field := lastSuper\<rparr>)
                   | (thrown, this2) \<Rightarrow> (thrown, this2\<lparr>super_field := lastSuper\<rparr>))\<rparr>
         | _ \<Rightarrow> \<lparr>enumerable = True, configurable = True, get = original\<rparr>)"

section \<open>Example states\<close>

text \<open>
  An object whose \<^verbatim>\<open>toString\<close> is callable and returns an object, so that its conversion
  to a string raises a TypeError. A first-pass machine over the small render target with
  one reference on its stack, which currently yields the given value at revision 0 of its
  tag.
\<close>

definition example_reference :: "bool \<Rightarrow> reference" where
  "example_reference c = \<lparr>ref_id = 7, ref_const = c\<rparr>"

definition example_upstream :: "opaque \<Rightarrow> nat \<Rightarrow> upstream" where
  "example_upstream v revision = (\<lambda>i. (v, revision))"

definition unconvertible :: opaque where
  "unconvertible =
     Obj \<lparr>toString_result = Some (Inl TypeError), toHTML_result = None, nodeType = None\<rparr>"

definition example_vm :: "bool \<Rightarrow> opaque \<Rightarrow> (simple_tree, simple_upsert) vm" where
  "example_vm c v =
     \<lparr>vm_stack = [example_reference c],
      vm_tree = \<lparr>children = [], fresh = 1, blocks = []\<rparr>,
      vm_updating = [],
      vm_upstream = example_upstream v 0,
      vm_trace = [],
      vm_guid = 0\<rparr>"

text \<open>
  A cautious update opcode whose content is the text node 1 showing \<^verbatim>\<open>"a"\<close>, read at
  revision 0, in a tree where another node follows; and a tree-node value.
\<close>

definition example_opcode :: "simple_upsert update_opcode" where
  "example_opcode =
     \<lparr>uo_class = OptimizedCautiousUpdateOpcode, uo_guid = 3, uo_tag = 7,
      uo_cache = \<lparr>rc_reference = map_reference (example_reference False) normalizeValue,
                  rc_last = Some (0, Str ''a'')\<rparr>,
      uo_bounds = Fragment \<lparr>parentElement = 0, firstNode = 1, lastNode = 1\<rparr>,
      uo_upsert = \<lparr>su_bounds = \<lparr>parentElement = 0, firstNode = 1, lastNode = 1\<rparr>,
                   su_kind = TextContent\<rparr>\<rparr>"

definition example_updating_vm :: "upstream \<Rightarrow> simple_tree updating_vm" where
  "example_updating_vm up =
     \<lparr>uvm_tree = \<lparr>children = [(1, Str ''a''), (2, Str ''z'')], fresh = 3, blocks = []\<rparr>,
      uvm_upstream = up,
      uvm_trace = []\<rparr>"

definition example_node :: opaque where
  "example_node =
     Obj \<lparr>toString_result = Some (Inr ''[object Text]''), toHTML_result = None,
          nodeType = Some 3\<rparr>"

text \<open>
  A home object with a method \<^verbatim>\<open>greet\<close>, a plain value \<^verbatim>\<open>name\<close> and a getter \<^verbatim>\<open>full\<close>;
  an original method and an original getter that report what \<^verbatim>\<open>_super\<close> holds while they
  run, the method by throwing it after setting \<^verbatim>\<open>_super\<close> to \<^verbatim>\<open>null\<close>.
\<close>

definition example_home :: "(super_closure option, unit) js_object" where
  "example_home =
     \<lparr>own = Map.empty,
      prototypes =
        [[''greet'' \<mapsto> DataFunction (\<lambda>args this. (Return None, this)),
          ''name'' \<mapsto> DataValue None,
          ''full'' \<mapsto> Accessor (Some (\<lambda>this. (Return None, this)))]]\<rparr>"

definition example_heap :: "nat \<Rightarrow> (super_closure option, unit) js_object" where
  "example_heap a = example_home"

definition throwing_method :: "(super_closure option, unit) js_method" where
  "throwing_method args this = (Throw (super_field this), this\<lparr>super_field := None\<rparr>)"

definition observing_getter :: "(super_closure option, unit) js_getter" where
  "observing_getter this = (Return (super_field this), this)"

definition example_instance :: "unit js_instance" where
  "example_instance = \<lparr>super_field = Some (SuperMethod 1 ''init''), other_fields = ()\<rparr>"

section \<open>Properties of normalisation\<close>

lemma normalizeValue_cases:
  "normalizeValue Null = Inr (Str '''')"
  "normalizeValue Undefined = Inr (Str '''')"
  "normalizeValue (Str s) = Inr (Str s)"
  "normalizeValue (Obj ob) =
     (case toString_result ob of
        None \<Rightarrow> Inr (Str '''')
      | Some r \<Rightarrow> if toHTML_result ob \<noteq> None \<or> nodeType ob \<noteq> None then Inr (Obj ob)
                  else (case r of Inl e \<Rightarrow> Inl e | Inr s \<Rightarrow> Inr (Str s)))"
  by (simp_all add: normalizeValue_def split: option.splits)

lemma normalizeTrustedValue_cases:
  "normalizeTrustedValue Null = Inr (Str '''')"
  "normalizeTrustedValue Undefined = Inr (Str '''')"
  "normalizeTrustedValue (Str s) = Inr (Str s)"
  "normalizeTrustedValue (Obj ob) =
     (case toString_result ob of
        None \<Rightarrow> Inr (Str '''')
      | Some r \<Rightarrow>
          (case toHTML_result ob of
             Some h \<Rightarrow> Inr (Str h)
           | None \<Rightarrow> if nodeType ob \<noteq> None then Inr (Obj ob)
                     else (case r of Inl e \<Rightarrow> Inl e | Inr s \<Rightarrow> Inr (Str s))))"
  by (simp_all add: normalizeTrustedValue_def split: option.splits)













section \<open>Properties of the append opcode\<close>

lemma normalize_inner: "inner (normalize this r) = r"
  by (cases this) (simp_all add: map_reference_def)

lemma updateWith_record:
  "updateWith this g cache bnds upsert =
     \<lparr>uo_class = (case this of
         OptimizedCautiousAppendOpcode \<Rightarrow> OptimizedCautiousUpdateOpcode
       | OptimizedTrustingAppendOpcode \<Rightarrow> OptimizedTrustingUpdateOpcode),
      uo_guid = g, uo_tag = ref_id (inner (rc_reference cache)),
      uo_cache = cache, uo_bounds = bnds, uo_upsert = upsert\<rparr>"
  by (cases this) (simp_all add: new_UpdateOpcode_def)

lemma evaluate_raises:
  assumes "vm_stack vm = reference # rest"
    and "mapper (normalize this reference) (fst (vm_upstream vm (ref_id reference))) = Inl e"
  shows "AppendDynamicOpcode_evaluate T this vm = Inl e"
  using assms
  by (simp add: AppendDynamicOpcode_evaluate_def reference_value_def normalize_inner
      Let_def new_ReferenceCache_def peek_def initialize_def)

lemma evaluate_constant:
  assumes "vm_stack vm = reference # rest" and "isConst reference"
    and "mapper (normalize this reference) (fst (vm_upstream vm (ref_id reference))) = Inr val"
    and "append_insert T this (elements T (vm_tree vm)) val (vm_tree vm) = (upsert, tree1)"
  shows "AppendDynamicOpcode_evaluate T this vm =
           Inr (vm\<lparr>vm_stack := rest,
                   vm_trace := vm_trace vm @ [ValueRead (ref_id reference)],
                   vm_tree := newBounds T (Fragment (upsert_bounds T upsert)) tree1\<rparr>)"
  using assms
  by (simp add: AppendDynamicOpcode_evaluate_def reference_value_def normalize_inner
      materialize_def Let_def)

lemma evaluate_variable:
  assumes "vm_stack vm = reference # rest" and "\<not> isConst reference"
    and "mapper (normalize this reference) (fst (vm_upstream vm (ref_id reference))) = Inr val"
    and "append_insert T this (elements T (vm_tree vm)) val (vm_tree vm) = (upsert, tree1)"
  shows "AppendDynamicOpcode_evaluate T this vm =
           Inr (vm\<lparr>vm_stack := rest,
                   vm_trace := vm_trace vm @
                     [CacheCreated (ref_id reference), ValueRead (ref_id reference)],
                   vm_tree := newBounds T (Fragment (upsert_bounds T upsert)) tree1,
                   vm_guid := Suc (vm_guid vm),
                   vm_updating := vm_updating vm @
                     [updateWith this (vm_guid vm)
                        \<lparr>rc_reference = normalize this reference,
                         rc_last = Some (snd (vm_upstream vm (ref_id reference)), val)\<rparr>
                        (Fragment (upsert_bounds T upsert)) upsert]\<rparr>)"
  using assms
  by (simp add: AppendDynamicOpcode_evaluate_def reference_value_def normalize_inner
      materialize_def Let_def new_ReferenceCache_def peek_def initialize_def
      reference_tag_def vm_updateWith_def)

lemma example_normalized:
  "mapper (normalize this (example_reference c))
     (fst (vm_upstream (example_vm c (Str ''hello'')) (ref_id (example_reference c))))
   = Inr (Str ''hello'')"
  "mapper (normalize this (example_reference c))
     (fst (vm_upstream (example_vm c unconvertible) (ref_id (example_reference c))))
   = Inl TypeError"
  by (cases this;
      simp add: map_reference_def example_vm_def example_upstream_def unconvertible_def
        normalizeValue_cases normalizeTrustedValue_cases)+

text \<open>
  C1: when the reference on top of the stack is constant, evaluation of either append
  variant reads its value through the normalised reference. When that read yields a
  value, evaluation succeeds; the trace has grown by exactly one \<^verbatim>\<open>value()\<close> read of that
  reference and by no cache construction; the value inserted is the one read; the list of
  updating opcodes, and so its length, is unchanged. When the read raises (the string
  conversion of the value fails), evaluation ends with that error and registers nothing.
\<close>

theorem C1_constant_reference:
  assumes "vm_stack vm = reference # rest" and "isConst reference"
  shows "(\<forall>val.
           mapper (normalize this reference) (fst (vm_upstream vm (ref_id reference))) = Inr val
           \<longrightarrow> (\<exists>upsert tree1 vm'.
                 append_insert T this (elements T (vm_tree vm)) val (vm_tree vm) = (upsert, tree1)
               \<and> AppendDynamicOpcode_evaluate T this vm = Inr vm'
               \<and> vm_trace vm' = vm_trace vm @ [ValueRead (ref_id reference)]
               \<and> vm_updating vm' = vm_updating vm
               \<and> length (vm_updating vm') = length (vm_updating vm)
               \<and> vm_stack vm' = rest
               \<and> vm_tree vm' = newBounds T (Fragment (upsert_bounds T upsert)) tree1))
       \<and> (\<forall>e.
           mapper (normalize this reference) (fst (vm_upstream vm (ref_id reference))) = Inl e
           \<longrightarrow> AppendDynamicOpcode_evaluate T this vm = Inl e)"
proof (intro conjI allI impI)
  fix val
  assume val:
    "mapper (normalize this reference) (fst (vm_upstream vm (ref_id reference))) = Inr val"
  obtain upsert tree1 where ins:
    "append_insert T this (elements T (vm_tree vm)) val (vm_tree vm) = (upsert, tree1)"
    by (cases "append_insert T this (elements T (vm_tree vm)) val (vm_tree vm)") simp
  from evaluate_constant [OF assms val ins] ins
  show "\<exists>upsert tree1 vm'.
          append_insert T this (elements T (vm_tree vm)) val (vm_tree vm) = (upsert, tree1)
        \<and> AppendDynamicOpcode_evaluate T this vm = Inr vm'
        \<and> vm_trace vm' = vm_trace vm @ [ValueRead (ref_id reference)]
        \<and> vm_updating vm' = vm_updating vm
        \<and> length (vm_updating vm') = length (vm_updating vm)
        \<and> vm_stack vm' = rest
        \<and> vm_tree vm' = newBounds T (Fragment (upsert_bounds T upsert)) tree1"
    by simp
next
  fix e
  assume "mapper (normalize this reference) (fst (vm_upstream vm (ref_id reference))) = Inl e"
  with assms(1) show "AppendDynamicOpcode_evaluate T this vm = Inl e"
    by (rule evaluate_raises)
qed

theorem C1_constant_reference_witness:
  "vm_stack (example_vm True (Str ''hello'')) = [example_reference True]
   \<and> isConst (example_reference True)
   \<and> (\<exists>vm'. AppendDynamicOpcode_evaluate simple_target OptimizedCautiousAppendOpcode
                (example_vm True (Str ''hello'')) = Inr vm'
         \<and> vm_trace vm' = [ValueRead 7] \<and> vm_updating vm' = []
         \<and> children (vm_tree vm') = [(1, Str ''hello'')])
   \<and> AppendDynamicOpcode_evaluate simple_target OptimizedCautiousAppendOpcode
        (example_vm True unconvertible) = Inl TypeError"
proof -
  let ?vm = "example_vm True (Str ''hello'')"
  have s: "vm_stack ?vm = example_reference True # []"
    by (simp add: example_vm_def)
  have c: "isConst (example_reference True)"
    by (simp add: isConst_def example_reference_def)
  have s': "vm_stack (example_vm True unconvertible) = example_reference True # []"
    by (simp add: example_vm_def)
  from C1_constant_reference [OF s c, of OptimizedCautiousAppendOpcode simple_target]
    example_normalized(1) [of OptimizedCautiousAppendOpcode True]
  obtain upsert tree1 vm' where
    i: "append_insert simple_target OptimizedCautiousAppendOpcode
          (elements simple_target (vm_tree ?vm)) (Str ''hello'') (vm_tree ?vm) = (upsert, tree1)"
    and e: "AppendDynamicOpcode_evaluate simple_target OptimizedCautiousAppendOpcode ?vm = Inr vm'"
    and t: "vm_trace vm' = vm_trace ?vm @ [ValueRead (ref_id (example_reference True))]"
    and u: "vm_updating vm' = vm_updating ?vm"
    and b: "vm_tree vm' = newBounds simple_target (Fragment (upsert_bounds simple_target upsert)) tree1"
    by blast
  from i have "children tree1 = [(1, Str ''hello'')]"
    by (auto simp add: simple_target_def example_vm_def)
  with b have k: "children (vm_tree vm') = [(1, Str ''hello'')]"
    by (simp add: simple_target_def)
  from C1_constant_reference [OF s' c, of OptimizedCautiousAppendOpcode simple_target]
    example_normalized(2) [of OptimizedCautiousAppendOpcode True]
  have r: "AppendDynamicOpcode_evaluate simple_target OptimizedCautiousAppendOpcode
        (example_vm True unconvertible) = Inl TypeError"
    by blast
  from e t u k r s c show ?thesis
    by (simp add: example_vm_def example_reference_def)
qed

text \<open>
  C3: when the reference on top of the stack is not constant, evaluation of either append
  variant wraps the normalised reference in a cache and reads through \<^verbatim>\<open>peek()\<close>. When
  that first computation yields a value, evaluation succeeds; the trace has grown by one
  cache construction followed by one \<^verbatim>\<open>value()\<close> read; and exactly one opcode is appended
  to the updating opcodes: the update class matching the append variant, carrying the
  cache of the normalised reference with the value just read, the fragment of the new
  bounds, and the upsert that \<^verbatim>\<open>insert\<close> returned. When the first computation raises,
  evaluation ends with that error and registers nothing.
\<close>

theorem C3_variable_reference:
  assumes "vm_stack vm = reference # rest" and "\<not> isConst reference"
  shows "(\<forall>val.
           mapper (normalize this reference) (fst (vm_upstream vm (ref_id reference))) = Inr val
           \<longrightarrow> (\<exists>upsert tree1 vm'.
                 append_insert T this (elements T (vm_tree vm)) val (vm_tree vm) = (upsert, tree1)
               \<and> AppendDynamicOpcode_evaluate T this vm = Inr vm'
               \<and> vm_trace vm' = vm_trace vm @
                    [CacheCreated (ref_id reference), ValueRead (ref_id reference)]
               \<and> vm_updating vm' = vm_updating vm @
                    [\<lparr>uo_class = (case this of
                          OptimizedCautiousAppendOpcode \<Rightarrow> OptimizedCautiousUpdateOpcode
                        | OptimizedTrustingAppendOpcode \<Rightarrow> OptimizedTrustingUpdateOpcode),
                      uo_guid = vm_guid vm,
                      uo_tag = ref_id reference,
                      uo_cache = \<lparr>rc_reference = normalize this reference,
                                  rc_last = Some (snd (vm_upstream vm (ref_id reference)), val)\<rparr>,
                      uo_bounds = Fragment (upsert_bounds T upsert),
                      uo_upsert = upsert\<rparr>]
               \<and> vm_stack vm' = rest
               \<and> vm_tree vm' = newBounds T (Fragment (upsert_bounds T upsert)) tree1))
       \<and> (\<forall>e.
           mapper (normalize this reference) (fst (vm_upstream vm (ref_id reference))) = Inl e
           \<longrightarrow> AppendDynamicOpcode_evaluate T this vm = Inl e)"
proof (intro conjI allI impI)
  fix val
  assume val:
    "mapper (normalize this reference) (fst (vm_upstream vm (ref_id reference))) = Inr val"
  obtain upsert tree1 where ins:
    "append_insert T this (elements T (vm_tree vm)) val (vm_tree vm) = (upsert, tree1)"
    by (cases "append_insert T this (elements T (vm_tree vm)) val (vm_tree vm)") simp
  from evaluate_variable [OF assms val ins] ins
  show "\<exists>upsert tree1 vm'.
          append_insert T this (elements T (vm_tree vm)) val (vm_tree vm) = (upsert, tree1)
        \<and> AppendDynamicOpcode_evaluate T this vm = Inr vm'
        \<and> vm_trace vm' = vm_trace vm @
             [CacheCreated (ref_id reference), ValueRead (ref_id reference)]
        \<and> vm_updating vm' = vm_updating vm @
             [\<lparr>uo_class = (case this of
                   OptimizedCautiousAppendOpcode \<Rightarrow> OptimizedCautiousUpdateOpcode
                 | OptimizedTrustingAppendOpcode \<Rightarrow> OptimizedTrustingUpdateOpcode),
               uo_guid = vm_guid vm,
               uo_tag = ref_id reference,
               uo_cache = \<lparr>rc_reference = normalize this reference,
                           rc_last = Some (snd (vm_upstream vm (ref_id reference)), val)\<rparr>,
               uo_bounds = Fragment (upsert_bounds T upsert),
               uo_upsert = upsert\<rparr>]
        \<and> vm_stack vm' = rest
        \<and> vm_tree vm' = newBounds T (Fragment (upsert_bounds T upsert)) tree1"
    by (simp add: updateWith_record normalize_inner)
next
  fix e
  assume "mapper (normalize this reference) (fst (vm_upstream vm (ref_id reference))) = Inl e"
  with assms(1) show "AppendDynamicOpcode_evaluate T this vm = Inl e"
    by (rule evaluate_raises)
qed

theorem C3_variable_reference_witness:
  "vm_stack (example_vm False (Str ''hello'')) = [example_reference False]
   \<and> \<not> isConst (example_reference False)
   \<and> (\<exists>vm' opc. AppendDynamicOpcode_evaluate simple_target OptimizedTrustingAppendOpcode
                (example_vm False (Str ''hello'')) = Inr vm'
         \<and> vm_trace vm' = [CacheCreated 7, ValueRead 7]
         \<and> vm_updating vm' = [opc]
         \<and> uo_class opc = OptimizedTrustingUpdateOpcode
         \<and> rc_last (uo_cache opc) = Some (0, Str ''hello''))
   \<and> AppendDynamicOpcode_evaluate simple_target OptimizedTrustingAppendOpcode
        (example_vm False unconvertible) = Inl TypeError"
proof -
  let ?vm = "example_vm False (Str ''hello'')"
  have s: "vm_stack ?vm = example_reference False # []"
    by (simp add: example_vm_def)
  have c: "\<not> isConst (example_reference False)"
    by (simp add: isConst_def example_reference_def)
  have s': "vm_stack (example_vm False unconvertible) = example_reference False # []"
    by (simp add: example_vm_def)
  from C3_variable_reference [OF s c, of OptimizedTrustingAppendOpcode simple_target]
    example_normalized(1) [of OptimizedTrustingAppendOpcode False]
  obtain upsert vm' where
    e: "AppendDynamicOpcode_evaluate simple_target OptimizedTrustingAppendOpcode ?vm = Inr vm'"
    and t: "vm_trace vm' = vm_trace ?vm @
          [CacheCreated (ref_id (example_reference False)),
           ValueRead (ref_id (example_reference False))]"
    and u: "vm_updating vm' = vm_updating ?vm @
          [\<lparr>uo_class = OptimizedTrustingUpdateOpcode,
            uo_guid = vm_guid ?vm,
            uo_tag = ref_id (example_reference False),
            uo_cache = \<lparr>rc_reference = normalize OptimizedTrustingAppendOpcode (example_reference False),
                        rc_last = Some (snd (vm_upstream ?vm (ref_id (example_reference False))),
                                        Str ''hello'')\<rparr>,
            uo_bounds = Fragment (upsert_bounds simple_target upsert),
            uo_upsert = upsert\<rparr>]"
    by auto
  from C3_variable_reference [OF s' c, of OptimizedTrustingAppendOpcode simple_target]
    example_normalized(2) [of OptimizedTrustingAppendOpcode False]
  have r: "AppendDynamicOpcode_evaluate simple_target OptimizedTrustingAppendOpcode
        (example_vm False unconvertible) = Inl TypeError"
    by blast
  from e t u r s c show ?thesis
    by (simp add: example_vm_def example_reference_def example_upstream_def)
qed

section \<open>Properties of the update opcode\<close>

lemma revalidate_Const:
  assumes "revalidate up c tr = Inr (Const, c', tr')"
  shows "c' = c \<and> tr' = tr \<and> (\<exists>v. rc_last c = Some (reference_tag up (rc_reference c), v))"
  using assms
  by (auto simp add: revalidate_def split: if_splits option.splits sum.splits)

lemma evaluate_Const:
  assumes "revalidate (uvm_upstream vm) (uo_cache this) (uvm_trace vm) = Inr (Const, c', tr')"
  shows "UpdateOpcode_evaluate T this vm = Inr (this, vm)"
proof -
  from revalidate_Const [OF assms] have "c' = uo_cache this" and "tr' = uvm_trace vm"
    by simp_all
  with assms show ?thesis
    by (simp add: UpdateOpcode_evaluate_def)
qed

lemma ticks_Const:
  assumes "\<forall>up \<in> set ups. \<exists>c' tr'.
             revalidate up (uo_cache this) (uvm_trace vm) = Inr (Const, c', tr')"
  shows "\<exists>vm'. ticks T ups this vm = Inr (this, vm')
           \<and> uvm_tree vm' = uvm_tree vm \<and> uvm_trace vm' = uvm_trace vm"
  using assms
proof (induction ups arbitrary: vm)
  case Nil
  then show ?case by simp
next
  case (Cons up ups)
  from Cons.prems obtain c' tr' where
    "revalidate up (uo_cache this) (uvm_trace vm) = Inr (Const, c', tr')"
    by auto
  then have step: "UpdateOpcode_evaluate T this (vm\<lparr>uvm_upstream := up\<rparr>)
      = Inr (this, vm\<lparr>uvm_upstream := up\<rparr>)"
    using evaluate_Const [of "vm\<lparr>uvm_upstream := up\<rparr>" this c' tr' T] by simp
  have "\<forall>up' \<in> set ups. \<exists>c' tr'.
          revalidate up' (uo_cache this) (uvm_trace (vm\<lparr>uvm_upstream := up\<rparr>))
            = Inr (Const, c', tr')"
    using Cons.prems by simp
  from Cons.IH [OF this] step show ?case by simp
qed

lemma revalidate_example_Const:
  "revalidate (example_upstream v 0) (uo_cache example_opcode) [] =
     Inr (Const, uo_cache example_opcode, [])"
  by (simp add: revalidate_def example_opcode_def reference_tag_def map_reference_def
      example_reference_def example_upstream_def)

text \<open>
  C7: on a tick where \<^verbatim>\<open>revalidate()\<close> reports \<open>Const\<close>, \<^verbatim>\<open>evaluate\<close> returns the opcode and
  the machine as they were: bounds and upsert are kept, the output tree is not touched
  (nor is any value read). The same holds over any run of further ticks on each of which
  \<^verbatim>\<open>revalidate()\<close> reports \<open>Const\<close>, whatever else changed upstream in between.
\<close>

theorem C7_const_tick:
  assumes "\<forall>up \<in> set (uvm_upstream vm # ups). \<exists>c' tr'.
             revalidate up (uo_cache this) (uvm_trace vm) = Inr (Const, c', tr')"
  shows "UpdateOpcode_evaluate T this vm = Inr (this, vm)
       \<and> (\<exists>this' vm'. ticks T ups this vm = Inr (this', vm')
            \<and> uo_bounds this' = uo_bounds this \<and> uo_upsert this' = uo_upsert this
            \<and> uvm_tree vm' = uvm_tree vm)"
proof -
  from assms obtain c' tr' where
    "revalidate (uvm_upstream vm) (uo_cache this) (uvm_trace vm) = Inr (Const, c', tr')"
    by auto
  then have one: "UpdateOpcode_evaluate T this vm = Inr (this, vm)"
    by (rule evaluate_Const)
  from assms have "\<forall>up \<in> set ups. \<exists>c' tr'.
             revalidate up (uo_cache this) (uvm_trace vm) = Inr (Const, c', tr')"
    by simp
  from ticks_Const [OF this, of T] one show ?thesis by auto
qed

theorem C7_const_tick_witness:
  "UpdateOpcode_evaluate simple_target example_opcode
      (example_updating_vm (example_upstream (Str ''b'') 0))
     = Inr (example_opcode, example_updating_vm (example_upstream (Str ''b'') 0))
   \<and> (\<exists>this' vm'. ticks simple_target
          [example_upstream (Str ''c'') 0, example_upstream (Str ''d'') 0] example_opcode
          (example_updating_vm (example_upstream (Str ''b'') 0)) = Inr (this', vm')
        \<and> uo_bounds this' = uo_bounds example_opcode
        \<and> uo_upsert this' = uo_upsert example_opcode
        \<and> children (uvm_tree vm') = [(1, Str ''a''), (2, Str ''z'')])"
proof -
  have h: "\<forall>up \<in> set (uvm_upstream (example_updating_vm (example_upstream (Str ''b'') 0))
                # [example_upstream (Str ''c'') 0, example_upstream (Str ''d'') 0]).
          \<exists>c' tr'. revalidate up (uo_cache example_opcode)
             (uvm_trace (example_updating_vm (example_upstream (Str ''b'') 0)))
           = Inr (Const, c', tr')"
    by (simp add: example_updating_vm_def revalidate_example_Const)
  from C7_const_tick [OF h, of simple_target] show ?thesis
    by (auto simp add: example_updating_vm_def)
qed

text \<open>
  C2: on a tick where \<^verbatim>\<open>revalidate()\<close> reports \<open>Modified\<close> with a value and \<^verbatim>\<open>update\<close> of
  the upsert answers false, \<^verbatim>\<open>evaluate\<close> ends normally (no error), and its result is made
  by clearing the opcode's bounds in the tree that \<^verbatim>\<open>update\<close> left, inserting the value
  with the variant's insert at the cursor made of the bounds' parent and the marker that
  \<^verbatim>\<open>clear\<close> returned, and storing the new upsert and, in the opcode's fragment, the new
  upsert's bounds.
\<close>

theorem C2_update_fallback:
  assumes "revalidate (uvm_upstream vm) (uo_cache this) (uvm_trace vm)
             = Inr (Modified val, c', tr')"
    and "upsert_update T (uo_upsert this) val (uvm_tree vm) = (False, upsert1, tree1)"
    and "clear T (fragment_bounds (uo_bounds this)) tree1 = (nextSibling, tree2)"
    and "update_insert T (uo_class this)
           (Cursor (parentElement (fragment_bounds (uo_bounds this))) nextSibling) val tree2
         = (upsert2, tree3)"
  shows "UpdateOpcode_evaluate T this vm =
           Inr (this\<lparr>uo_cache := c', uo_upsert := upsert2,
                     uo_bounds := Fragment (upsert_bounds T upsert2)\<rparr>,
                vm\<lparr>uvm_tree := tree3, uvm_trace := tr'\<rparr>)"
  using assms by (simp add: UpdateOpcode_evaluate_def)

theorem C2_update_fallback_witness:
  "\<exists>this' vm'. UpdateOpcode_evaluate simple_target example_opcode
        (example_updating_vm (example_upstream example_node 1)) = Inr (this', vm')
     \<and> children (uvm_tree vm') = [(3, example_node), (2, Str ''z'')]
     \<and> uo_upsert this' = \<lparr>su_bounds = \<lparr>parentElement = 0, firstNode = 3, lastNode = 3\<rparr>,
                           su_kind = NodeContent\<rparr>
     \<and> uo_bounds this' = Fragment \<lparr>parentElement = 0, firstNode = 3, lastNode = 3\<rparr>"
proof -
  let ?vm = "example_updating_vm (example_upstream example_node 1)"
  have r: "revalidate (uvm_upstream ?vm) (uo_cache example_opcode) (uvm_trace ?vm)
      = Inr (Modified example_node,
             (uo_cache example_opcode)\<lparr>rc_last := Some (1, example_node)\<rparr>, [ValueRead 7])"
    by (simp add: revalidate_def initialize_def reference_value_def reference_tag_def
        example_updating_vm_def example_opcode_def example_upstream_def map_reference_def
        example_reference_def example_node_def normalizeValue_cases)
  have u: "upsert_update simple_target (uo_upsert example_opcode) example_node (uvm_tree ?vm)
      = (False, uo_upsert example_opcode, uvm_tree ?vm)"
    by (simp add: simple_target_def simple_update_def example_node_def)
  have c: "clear simple_target (fragment_bounds (uo_bounds example_opcode)) (uvm_tree ?vm)
      = (Some 2, \<lparr>children = [(2, Str ''z'')], fresh = 3, blocks = []\<rparr>)"
    by (simp add: simple_target_def simple_clear_def example_opcode_def example_updating_vm_def)
  have i: "update_insert simple_target (uo_class example_opcode)
        (Cursor (parentElement (fragment_bounds (uo_bounds example_opcode))) (Some 2))
        example_node \<lparr>children = [(2, Str ''z'')], fresh = 3, blocks = []\<rparr>
      = (\<lparr>su_bounds = \<lparr>parentElement = 0, firstNode = 3, lastNode = 3\<rparr>, su_kind = NodeContent\<rparr>,
         \<lparr>children = [(3, example_node), (2, Str ''z'')], fresh = 4, blocks = []\<rparr>)"
    by (simp add: simple_target_def example_opcode_def example_node_def)
  from C2_update_fallback [OF r u c i] show ?thesis
    by (simp add: simple_target_def)
qed

lemma evaluate_keeps_cache_read:
  assumes "UpdateOpcode_evaluate T this vm = Inr (this', vm')"
    and "rc_last (uo_cache this) \<noteq> None"
  shows "rc_last (uo_cache this') \<noteq> None"
  using assms
  by (auto simp add: UpdateOpcode_evaluate_def revalidate_def initialize_def Let_def
      split: sum.splits prod.splits validation.splits if_splits option.splits)

lemma append_registers_read_caches:
  assumes "AppendDynamicOpcode_evaluate T this vm = Inr vm'"
    and "\<forall>u \<in> set (vm_updating vm). rc_last (uo_cache u) \<noteq> None"
  shows "\<forall>u \<in> set (vm_updating vm'). rc_last (uo_cache u) \<noteq> None"
proof (cases "vm_stack vm")
  case Nil
  with assms(1) show ?thesis
    by (simp add: AppendDynamicOpcode_evaluate_def)
next
  case (Cons reference rest)
  show ?thesis
  proof (cases "mapper (normalize this reference) (fst (vm_upstream vm (ref_id reference)))")
    case (Inl e)
    from evaluate_raises [OF Cons Inl, of T] assms(1) show ?thesis
      by simp
  next
    case (Inr val)
    obtain upsert tree1 where ins:
      "append_insert T this (elements T (vm_tree vm)) val (vm_tree vm) = (upsert, tree1)"
      by (cases "append_insert T this (elements T (vm_tree vm)) val (vm_tree vm)") simp
    show ?thesis
    proof (cases "isConst reference")
      case True
      from evaluate_constant [OF Cons True Inr ins] assms show ?thesis
        by auto
    next
      case False
      from evaluate_variable [OF Cons False Inr ins] assms show ?thesis
        by (auto simp add: updateWith_record)
    qed
  qed
qed

text \<open>
  C8: for an update opcode whose cache has read a value (every opcode the append opcode
  registers is so, and \<^verbatim>\<open>evaluate\<close> keeps it so: the two lemmas above), \<^verbatim>\<open>toJSON\<close> returns
  the snapshot made of the opcode's guid, its type tag and the stringification of the
  value last read; nothing is recomputed (the trace is unchanged), and the opcode with
  its cache and the machine with its output tree are as before.
\<close>

theorem C8_toJSON:
  assumes "rc_last (uo_cache this) = Some (t, v)"
  shows "toJSON stringify this vm =
           Inr (\<lparr>details_lastValue = stringify v, guid = uo_guid this,
                 type = update_type (uo_class this)\<rparr>, this, vm)"
  using assms by (simp add: toJSON_def peek_def)

theorem C8_toJSON_witness:
  "rc_last (uo_cache example_opcode) = Some (0, Str ''a'')
   \<and> toJSON js_String example_opcode (example_updating_vm (example_upstream (Str ''b'') 1))
     = Inr (\<lparr>details_lastValue = Inr ''a'', guid = 3, type = ''optimized-cautious-update''\<rparr>,
            example_opcode, example_updating_vm (example_upstream (Str ''b'') 1))"
proof -
  have h: "rc_last (uo_cache example_opcode) = Some (0, Str ''a'')"
    by (simp add: example_opcode_def)
  from C8_toJSON [OF h, of js_String "example_updating_vm (example_upstream (Str ''b'') 1)"] h
  show ?thesis
    by (simp add: example_opcode_def)
qed

section \<open>Properties of opening a component\<close>

text \<open>
  C9: evaluating \<^verbatim>\<open>OpenComponentOpcode\<close> changes the machine in two places only: one frame
  holding the opcodes of the invocation's layout is pushed, and the machine's templates
  become the invocation's templates. The evaluation stack, the output tree and the
  environment are as before.
\<close>

theorem C9_open_component:
  "OpenComponentOpcode_evaluate this vm =
     vm\<lparr>cvm_frames := opcodes (layout (invocation this)) (cvm_env vm) # cvm_frames vm,
        cvm_templates := templates (invocation this)\<rparr>
   \<and> cvm_stack (OpenComponentOpcode_evaluate this vm) = cvm_stack vm
   \<and> cvm_tree (OpenComponentOpcode_evaluate this vm) = cvm_tree vm
   \<and> cvm_env (OpenComponentOpcode_evaluate this vm) = cvm_env vm"
  by (simp add: OpenComponentOpcode_evaluate_def pushFrame_def setTemplates_def)

section \<open>Properties of the wrappers\<close>

lemma wrapMethod_present:
  assumes "has_property (heap home) methodName"
  shows "wrapMethod heap home methodName original args this =
           (fst (original args (this\<lparr>super_field := Some (SuperMethod home methodName)\<rparr>)),
            (snd (original args (this\<lparr>super_field := Some (SuperMethod home methodName)\<rparr>)))
              \<lparr>super_field := super_field this\<rparr>)"
  using assms
  by (simp add: wrapMethod_def Let_def split: prod.splits completion.splits)

lemma wrapAccessor_present:
  assumes "getPropertyDescriptor (heap home) accessorName = Some (Accessor g)"
  shows "get (wrapAccessor heap home accessorName original) this =
           (fst (original (this\<lparr>super_field := Some (SuperGetter home accessorName)\<rparr>)),
            (snd (original (this\<lparr>super_field := Some (SuperGetter home accessorName)\<rparr>)))
              \<lparr>super_field := super_field this\<rparr>)"
  using assms
  by (simp add: wrapAccessor_def Let_def split: prod.splits completion.splits)

lemma wrapAccessor_absent:
  assumes "\<forall>g. getPropertyDescriptor (heap home) accessorName \<noteq> Some (Accessor g)"
  shows "get (wrapAccessor heap home accessorName original) = original"
  using assms
  by (simp add: wrapAccessor_def Let_def split: option.splits descriptor.splits)

lemma example_home_lookup:
  "getPropertyDescriptor (example_heap a) ''name'' = Some (DataValue None)"
  "getPropertyDescriptor (example_heap a) ''greet''
     = Some (DataFunction (\<lambda>args this. (Return None, this)))"
  "getPropertyDescriptor (example_heap a) ''full''
     = Some (Accessor (Some (\<lambda>this. (Return None, this))))"
  "has_property (example_heap a) ''name''"
  "has_property (example_heap a) ''greet''"
  "\<not> has_property (example_heap a) ''absent''"
  by (simp_all add: example_heap_def example_home_def getPropertyDescriptor_def
      has_property_def)

text \<open>
  C10, as stated, at a computed accessor \<^verbatim>\<open>name\<close> whose home object has \<^verbatim>\<open>name\<close> as a plain
  value: the name is present on the home object, yet the getter installed is the original
  itself, and while it runs \<^verbatim>\<open>_super\<close> is what it was before the call, not a function that
  delegates to the home object.
\<close>

theorem C10_counterexample:
  "has_property (example_heap 0) ''name''
   \<and> get (wrapAccessor example_heap 0 ''name'' observing_getter) = observing_getter
   \<and> fst (get (wrapAccessor example_heap 0 ''name'' observing_getter) example_instance)
       \<noteq> Return (Some (SuperGetter 0 ''name''))"
  by (simp add: example_home_lookup wrapAccessor_def observing_getter_def example_instance_def)

text \<open>
  C10, amended. \<^verbatim>\<open>wrapMethod\<close>: when the name is a property of the home object, every call
  of the wrapper runs the original with \<^verbatim>\<open>_super\<close> set to the closure that applies
  \<^verbatim>\<open>home[name]\<close>, and afterwards \<^verbatim>\<open>_super\<close> is what it was before the call, whatever the
  completion of the original (a return or a throw), which is the wrapper's completion;
  when the name is no property of the home object, the original is returned unwrapped.
  \<^verbatim>\<open>wrapAccessor\<close>: the same wrapping is installed as the getter when the descriptor found
  for the name on the home object is an accessor descriptor; when the name is absent
  there or is a data property, the original is installed as the getter, unwrapped. The
  closures delegate to the home object's implementation as it is when they are called.
\<close>

theorem C10_super_wrappers:
  "(has_property (heap home) methodName
      \<and> original args (this\<lparr>super_field := Some (SuperMethod home methodName)\<rparr>) = (result, this2)
      \<longrightarrow> wrapMethod heap home methodName original args this
            = (result, this2\<lparr>super_field := super_field this\<rparr>))
   \<and> (\<not> has_property (heap home) absentName
      \<longrightarrow> wrapMethod heap home absentName original = original)
   \<and> (getPropertyDescriptor (heap home) accessorName = Some (Accessor g)
      \<and> getter (this\<lparr>super_field := Some (SuperGetter home accessorName)\<rparr>) = (result', this2')
      \<longrightarrow> get (wrapAccessor heap home accessorName getter) this
            = (result', this2'\<lparr>super_field := super_field this\<rparr>))
   \<and> ((\<forall>g. getPropertyDescriptor (heap home) otherName \<noteq> Some (Accessor g))
      \<longrightarrow> get (wrapAccessor heap home otherName getter) = getter)
   \<and> (getPropertyDescriptor (heap' home) methodName = Some (DataFunction m)
      \<longrightarrow> call_super heap' (Some (SuperMethod home methodName)) args' this' = m args' this')
   \<and> (getPropertyDescriptor (heap' home) accessorName = Some (Accessor (Some g'))
      \<longrightarrow> call_super heap' (Some (SuperGetter home accessorName)) args' this' = g' this')"
proof -
  have "wrapMethod heap home absentName original = original"
    if "\<not> has_property (heap home) absentName"
    using that by (simp add: wrapMethod_def)
  then show ?thesis
    using wrapMethod_present [of heap home methodName original args this]
      wrapAccessor_present [of heap home accessorName g getter this]
      wrapAccessor_absent [of heap home otherName getter]
    by auto
qed

theorem C10_super_wrappers_witness:
  "wrapMethod example_heap 0 ''greet'' throwing_method [] example_instance
     = (Throw (Some (SuperMethod 0 ''greet'')), example_instance)
   \<and> wrapMethod example_heap 0 ''absent'' throwing_method = throwing_method
   \<and> get (wrapAccessor example_heap 0 ''full'' observing_getter) example_instance
     = (Return (Some (SuperGetter 0 ''full'')), example_instance)
   \<and> get (wrapAccessor example_heap 0 ''name'' observing_getter) = observing_getter
   \<and> call_super example_heap (Some (SuperMethod 0 ''greet'')) [] example_instance
     = (Return None, example_instance)
   \<and> call_super example_heap (Some (SuperGetter 0 ''full'')) [] example_instance
     = (Return None, example_instance)"
  using C10_super_wrappers [where heap = example_heap and home = 0
      and methodName = "''greet''" and original = throwing_method and args = "[]"
      and this = example_instance and result = "Throw (Some (SuperMethod 0 ''greet''))"
      and ?this2.0 = "example_instance\<lparr>super_field := None\<rparr>"
      and absentName = "''absent''" and accessorName = "''full''"
      and g = "Some (\<lambda>this. (Return None, this))" and getter = observing_getter
      and result' = "Return (Some (SuperGetter 0 ''full''))"
      and this2' = "example_instance\<lparr>super_field := Some (SuperGetter 0 ''full'')\<rparr>"
      and otherName = "''name''" and heap' = example_heap
      and m = "\<lambda>args this. (Return None, this)" and args' = "[]"
      and this' = example_instance and g' = "\<lambda>this. (Return None, this)"]
  by (simp add: example_home_lookup throwing_method_def observing_getter_def
      example_instance_def)

end
